theory Spec2Isabelle
  imports Main
begin

section \<open>Data model\<close>

subsection \<open>Routing records\<close>

text \<open>
  Modelled from the spec: \<open>RouteState\<close> and \<open>RoutingNode\<close> are imported from
  \<^verbatim>\<open>./cluster_doc\<close>, which is not among the sources. The dispatcher names one state only,
  \<open>RouteState.Initializing\<close>; the spec calls the ready state \<open>Active\<close>. A routing node is
  the record \<open>{ node, state }\<close> that \<open>proxyRequest\<close> reads.
\<close>

datatype RouteState = Initializing | Active

record RoutingNode =
  node :: string
  state :: RouteState

subsection \<open>Requests, URLs and values\<close>

text \<open>
  A \<open>URL\<close> object of the platform by the components of the URL standard: scheme,
  credentials, host, port, path, query and fragment; host, port, query and fragment can be
  null. A path is a list of segments, or opaque (as in \<^verbatim>\<open>mailto:a@b\<close>).
\<close>

datatype url_path = Segments "string list" | Opaque string

record URL =
  scheme :: string
  username :: string
  password :: string
  host :: "string option"
  urlport :: "string option"
  path :: url_path
  query :: "string option"
  fragment :: "string option"

text \<open>The getter \<^verbatim>\<open>url.pathname\<close>: the serialised path.\<close>

definition pathname :: "URL \<Rightarrow> string" where
  "pathname u =
     (case path u of
        Opaque p \<Rightarrow> p
      | Segments ss \<Rightarrow> concat (map (\<lambda>x. ''/'' @ x) ss))"

text \<open>
  \<^verbatim>\<open>url.toString()\<close>: the serialiser of the URL standard. Credentials and port are written
  only with a host; a query and a fragment are written when they are not null.
\<close>

definition toString :: "URL \<Rightarrow> string" where
  "toString u =
     scheme u @ '':''
     @ (case host u of
          Some h \<Rightarrow>
            ''//''
            @ (if username u \<noteq> [] \<or> password u \<noteq> []
               then username u @ (if password u \<noteq> [] then '':'' @ password u else []) @ ''@''
               else [])
            @ h
            @ (case urlport u of None \<Rightarrow> [] | Some p \<Rightarrow> '':'' @ p)
        | None \<Rightarrow>
            (case path u of
               Segments (x # y # ss) \<Rightarrow> (if x = [] then ''/.'' else [])
             | _ \<Rightarrow> []))
     @ pathname u
     @ (case query u of None \<Rightarrow> [] | Some q \<Rightarrow> ''?'' @ q)
     @ (case fragment u of None \<Rightarrow> [] | Some f \<Rightarrow> ''#'' @ f)"

type_synonym headers = "(string \<times> string) list"

text \<open>
  A \<open>KibanaRequest\<close> as far as \<open>proxyRequest\<close> reads it: \<^verbatim>\<open>req.route.method\<close>,
  \<^verbatim>\<open>req.url.toString()\<close>, \<^verbatim>\<open>req.headers\<close> and \<^verbatim>\<open>req.body\<close>.
\<close>

record KibanaRequest =
  route_method :: string
  url :: string
  headers :: headers
  body :: string

datatype js_error = Error string | TypeError string

fun message :: "js_error \<Rightarrow> string" where
  "message (Error m) = m"
| "message (TypeError m) = m"

text \<open>The response object that \<^verbatim>\<open>wreck.request\<close> resolves with: status code and payload stream.\<close>

datatype response = Response int string

text \<open>What a promise of the service can resolve with.\<close>

datatype jsval = Undefined | Payload string

text \<open>
  The fate of a promise: it resolves with a value, it rejects with an error, or it never
  settles (nobody ever calls \<open>resolve\<close> or \<open>reject\<close>).
\<close>

datatype 'a settled = Resolved 'a | Rejected js_error | Pending

subsection \<open>Agents and the HTTP client\<close>

record Agent =
  keepAlive :: bool
  agent_cert :: "string option"
  agent_key :: "string option"
  agent_ca :: "string option"

text \<open>
  The HTTP client: \<open>Wreck\<close> itself, or \<^verbatim>\<open>Wreck.defaults({ agent: { https, http,
  httpsAllowUnauthorized } })\<close>, which keeps the three agents it was built with.
\<close>

datatype WreckClient = Wreck | WreckDefaults Agent Agent Agent

subsection \<open>Observable effects\<close>

datatype event =
    GetNode string
  | LogDebug string
  | LogStillStarting string int int int
  | LogWarn string
  | SetTimeout int
  | WreckRequest WreckClient string string headers string
  | WreckRead response
  | UnhandledRejection js_error
  | ClusterDocClientStop
  | Unsubscribe

subsection \<open>The collaborators of the dispatcher\<close>

text \<open>
  Everything \<open>proxyRequest\<close> calls outside the class: the platform's URL parser
  (\<open>None\<close> is the \<open>TypeError\<close> that \<^verbatim>\<open>new URL\<close> throws), the platform's host parser as
  the setter of \<open>hostname\<close> runs it (\<open>None\<close> when the value is not accepted as a host,
  otherwise the host in its serialised form), the routing store as seen by the k-th lookup
  of one dispatch (the store changes while the dispatcher waits), and the HTTP library:
  \<open>request\<close> on a given client, and \<open>read\<close>.
\<close>

record collaborators =
  parseURL :: "string \<Rightarrow> URL option"
  parseHost :: "URL \<Rightarrow> string \<Rightarrow> string option"
  getNodeForResource :: "nat \<Rightarrow> string \<Rightarrow> RoutingNode option"
  wreck_request ::
    "WreckClient \<Rightarrow> string \<Rightarrow> string \<Rightarrow> headers \<Rightarrow> string \<Rightarrow> js_error + response"
  wreck_read :: "response \<Rightarrow> js_error + string"

subsection \<open>The service object\<close>

datatype Subscription = Subscription

text \<open>
  The mutable fields of \<open>ProxyService\<close>. \<open>clusterDocClient\<close> is the state of the routing
  store client, whose class is not among the sources; its type is left open.
\<close>

record 'c ProxyService =
  configSubscription :: "Subscription option"
  clusterDocClient :: 'c
  maxRetry :: int
  requestBackoff :: int
  port :: int
  httpsAgent :: Agent
  httpAgent :: Agent
  allowUnauthAgent :: Agent
  wreck :: WreckClient

section \<open>The proxy dispatcher\<close>

text \<open>\<^verbatim>\<open>resource = resource || url.pathname\<close>: an absent and an empty argument are both falsy.\<close>

definition effectiveResource :: "string option \<Rightarrow> URL \<Rightarrow> string" where
  "effectiveResource resource u =
     (case resource of
        None \<Rightarrow> pathname u
      | Some r \<Rightarrow> if r = [] then pathname u else r)"

text \<open>
  The assignment \<^verbatim>\<open>url.hostname = value\<close>, as the URL standard defines the setter: nothing
  happens on a URL with an opaque path or when the host parser does not accept the value;
  otherwise the host, and only the host, is replaced by the parsed host.
\<close>

definition setHostname :: "collaborators \<Rightarrow> URL \<Rightarrow> string \<Rightarrow> URL" where
  "setHostname env u v =
     (case path u of
        Opaque p \<Rightarrow> u
      | Segments ss \<Rightarrow>
          (case parseHost env u v of
             None \<Rightarrow> u
           | Some h \<Rightarrow> u\<lparr>host := Some h\<rparr>))"

text \<open>
  The \<open>try\<close> block, on the client \<open>this.wreck\<close>: one \<^verbatim>\<open>wreck.request\<close>, awaited inside
  the \<open>try\<close>, so its rejection is caught and wrapped; \<^verbatim>\<open>Wreck.read\<close> is returned without
  \<open>await\<close>, so its rejection reaches the caller as it is.
\<close>

definition forward ::
  "collaborators \<Rightarrow> WreckClient \<Rightarrow> RoutingNode \<Rightarrow> URL \<Rightarrow> KibanaRequest \<Rightarrow> string
     \<Rightarrow> jsval settled \<times> event list" where
  "forward env client n u req resource =
     (let target = toString (setHostname env u (node n));
          call = WreckRequest client (route_method req) target (headers req) (body req)
      in case wreck_request env client (route_method req) target (headers req) (body req) of
           Inl err \<Rightarrow>
             (let msg = ''Unable to complete request to '' @ node n @ '' for '' @ resource
                          @ '' because '' @ message err
              in (Rejected (Error msg), [call, LogWarn msg]))
         | Inr res \<Rightarrow>
             (case wreck_read env res of
                Inl err \<Rightarrow> (Rejected err, [call, WreckRead res])
              | Inr data \<Rightarrow> (Resolved (Payload data), [call, WreckRead res])))"

text \<open>
  The promise built around the retry:
  \<^verbatim>\<open>new Promise(resolve => setTimeout(async () => { await this.proxyRequest(..); resolve(); }, ..))\<close>.
  When the inner call resolves, \<open>resolve()\<close> is called with no argument; when it rejects,
  the rejection leaves the timer's callback unhandled and \<open>resolve\<close> is never called.
\<close>

fun afterRetry :: "jsval settled \<Rightarrow> jsval settled" where
  "afterRetry (Resolved v) = Resolved Undefined"
| "afterRetry (Rejected e) = Pending"
| "afterRetry Pending = Pending"

fun unhandled :: "jsval settled \<Rightarrow> event list" where
  "unhandled (Rejected e) = [UnhandledRejection e]"
| "unhandled _ = []"

text \<open>
  \<open>proxyRequest env svc k req resource retryCount\<close>: the call
  \<^verbatim>\<open>this.proxyRequest(req, resource, retryCount)\<close> whose lookup is the k-th of the dispatch.
  The result is the fate of the returned promise and the effects in the order they happen.
  The fields \<open>maxRetry\<close> and \<open>requestBackoff\<close> are read from the service at each decision;
  no configuration is emitted while the dispatch runs.
\<close>

function proxyRequest ::
  "collaborators \<Rightarrow> 'c ProxyService \<Rightarrow> nat \<Rightarrow> KibanaRequest \<Rightarrow> string option \<Rightarrow> int
     \<Rightarrow> jsval settled \<times> event list" where
  "proxyRequest env svc k req resource retryCount =
     (case parseURL env (url req) of
        None \<Rightarrow> (Rejected (TypeError ''Invalid URL''), [])
      | Some u \<Rightarrow>
          (let r = effectiveResource resource u in
           case getNodeForResource env k r of
             None \<Rightarrow>
               (let msg = ''No node was found for resource '' @ r
                in (Rejected (Error msg), [GetNode r, LogDebug msg]))
           | Some n \<Rightarrow>
               if state n = Initializing then
                 (let warn = LogStillStarting (node n) retryCount (maxRetry svc) (requestBackoff svc)
                  in if retryCount \<le> maxRetry svc then
                       (case proxyRequest env svc (Suc k) req (Some r) (retryCount + 1) of
                          (res, tr) \<Rightarrow>
                            (afterRetry res,
                             [GetNode r, warn, SetTimeout (requestBackoff svc)] @ tr @ unhandled res))
                     else
                       (Rejected (Error ''maxRetries exceeded and node has not yet initialized''),
                        [GetNode r, warn]))
               else
                 (case forward env (wreck svc) n u req r of
                    (res, tr) \<Rightarrow> (res, GetNode r # tr))))"
  by pat_completeness auto
termination
  by (relation "measure (\<lambda>(env, svc, k, req, resource, retryCount). nat (maxRetry svc + 1 - retryCount))")
     auto

declare proxyRequest.simps [simp del]

text \<open>\<^verbatim>\<open>proxyResource(resource)\<close>: the callable that fixes the resource.\<close>

definition proxyResource ::
  "collaborators \<Rightarrow> 'c ProxyService \<Rightarrow> string \<Rightarrow> KibanaRequest \<Rightarrow> jsval settled \<times> event list" where
  "proxyResource env svc resource = (\<lambda>req. proxyRequest env svc 0 req (Some resource) 0)"

subsection \<open>Counting effects\<close>

fun isGetNode :: "event \<Rightarrow> bool" where
  "isGetNode (GetNode r) = True"
| "isGetNode _ = False"

fun isSetTimeout :: "event \<Rightarrow> bool" where
  "isSetTimeout (SetTimeout b) = True"
| "isSetTimeout _ = False"

fun isWreckRequest :: "event \<Rightarrow> bool" where
  "isWreckRequest (WreckRequest c m t h b) = True"
| "isWreckRequest _ = False"

text \<open>
  Resolution attempts (lookups, each followed by one readiness check when a node is found),
  backoff waits and outbound backend calls of a trace.
\<close>

definition attempts :: "event list \<Rightarrow> nat" where
  "attempts tr = length (filter isGetNode tr)"

definition waits :: "event list \<Rightarrow> nat" where
  "waits tr = length (filter isSetTimeout tr)"

definition backendCalls :: "event list \<Rightarrow> nat" where
  "backendCalls tr = length (filter isWreckRequest tr)"

section \<open>Configuration and lifecycle\<close>

subsection \<open>The configuration snapshot\<close>

text \<open>
  \<open>ProxyPluginType\<close>, the validated configuration. Its fields \<open>port\<close>, \<open>maxRetry\<close> and
  \<open>requestBackoff\<close> carry the prefix \<open>config_\<close> here, since the service has fields of the
  same names.
\<close>

record ProxyPluginType =
  updateInterval :: int
  timeoutThreshold :: int
  config_port :: int
  config_maxRetry :: int
  config_requestBackoff :: int
  cert :: string
  key :: string
  ca :: string
  cipherSuites :: "string list"
  supportedProtocols :: "string list"

record SslConfig =
  enabled :: bool
  redirectHttpFromPort :: int
  certificate :: string
  ssl_key :: string
  certificateAuthorities :: "string list"
  ssl_cipherSuites :: "string list"
  keyPassphrase :: "string option"
  ssl_supportedProtocols :: "string list"

text \<open>\<open>ProxyServiceSetup\<close>: the server made by \<^verbatim>\<open>core.http.createNewServer({ port, ssl })\<close>.\<close>

datatype ProxyServiceSetup = HttpSetup int SslConfig

text \<open>
  What the lifecycle methods call outside the class: reading a file, the routing store
  client's \<open>setup\<close> and \<open>stop\<close>, and the creation of the HTTP server. Each may reject.
\<close>

record 'c platform =
  readFile :: "string \<Rightarrow> js_error + string"
  client_setup :: "'c \<Rightarrow> js_error + 'c"
  client_stop :: "'c \<Rightarrow> js_error + 'c"
  createNewServer :: "int \<Rightarrow> SslConfig \<Rightarrow> js_error + ProxyServiceSetup"

subsection \<open>setConfig, configureSSL, setup, stop\<close>

definition setConfig :: "'c ProxyService \<Rightarrow> ProxyPluginType \<Rightarrow> 'c ProxyService" where
  "setConfig svc config =
     svc\<lparr>port := config_port config,
         maxRetry := config_maxRetry config,
         requestBackoff := config_requestBackoff config\<rparr>"

text \<open>
  The callback of the subscription made in \<open>setup\<close>, \<^verbatim>\<open>config => { this.setConfig(config) }\<close>:
  it runs for an emitted snapshot while the subscription is open.
\<close>

definition configEmitted :: "'c ProxyService \<Rightarrow> ProxyPluginType \<Rightarrow> 'c ProxyService" where
  "configEmitted svc config =
     (case configSubscription svc of
        None \<Rightarrow> svc
      | Some sub \<Rightarrow> setConfig svc config)"

text \<open>
  \<open>configureSSL\<close>: the three files are read; if one read fails the promise rejects and
  the agent is left as it was (the reads are taken in the order cert, key, ca).
\<close>

definition configureSSL ::
  "'c platform \<Rightarrow> 'c ProxyService \<Rightarrow> ProxyPluginType \<Rightarrow> (js_error + SslConfig) \<times> 'c ProxyService" where
  "configureSSL env svc config =
     (case readFile env (cert config) of
        Inl e \<Rightarrow> (Inl e, svc)
      | Inr tlsCert \<Rightarrow>
          (case readFile env (key config) of
             Inl e \<Rightarrow> (Inl e, svc)
           | Inr tlsKey \<Rightarrow>
               (case readFile env (ca config) of
                  Inl e \<Rightarrow> (Inl e, svc)
                | Inr tlsCa \<Rightarrow>
                    (Inr \<lparr>enabled = True,
                          redirectHttpFromPort = port svc,
                          certificate = tlsCert,
                          ssl_key = tlsKey,
                          certificateAuthorities = [tlsCa],
                          ssl_cipherSuites = cipherSuites config,
                          keyPassphrase = None,
                          ssl_supportedProtocols = supportedProtocols config\<rparr>,
                     svc\<lparr>httpsAgent :=
                           \<lparr>keepAlive = True, agent_cert = Some tlsCert,
                            agent_key = Some tlsKey, agent_ca = Some tlsCa\<rparr>\<rparr>))))"

text \<open>
  \<open>setupService env svc config\<close> is the method \<open>setup\<close> of the class, where \<open>config\<close> is
  the first snapshot of the configuration stream: the subscription is opened, the snapshot is applied, the credentials are
  loaded, the HTTP client is rebuilt around the three agents and the server is created.
\<close>

definition setupService ::
  "'c platform \<Rightarrow> 'c ProxyService \<Rightarrow> ProxyPluginType
     \<Rightarrow> (js_error + ProxyServiceSetup) \<times> 'c ProxyService" where
  "setupService env svc config =
     (case client_setup env (clusterDocClient svc) of
        Inl e \<Rightarrow> (Inl e, svc)
      | Inr c \<Rightarrow>
          (let svc1 = svc\<lparr>clusterDocClient := c, configSubscription := Some Subscription\<rparr>;
               svc2 = setConfig (configEmitted svc1 config) config
           in case configureSSL env svc2 config of
                (Inl e, svc3) \<Rightarrow> (Inl e, svc3)
              | (Inr ssl, svc3) \<Rightarrow>
                  (let svc4 = svc3\<lparr>wreck := WreckDefaults (httpsAgent svc3) (httpAgent svc3)
                                                 (allowUnauthAgent svc3)\<rparr>
                   in case createNewServer env (config_port config) ssl of
                        Inl e \<Rightarrow> (Inl e, svc4)
                      | Inr httpSetup \<Rightarrow> (Inr httpSetup, svc4))))"

text \<open>\<open>stop\<close>: the fate of its promise, the service afterwards, and the effects in order.\<close>

definition stop ::
  "'c platform \<Rightarrow> 'c ProxyService \<Rightarrow> jsval settled \<times> 'c ProxyService \<times> event list" where
  "stop env svc =
     (case client_stop env (clusterDocClient svc) of
        Inl e \<Rightarrow> (Rejected e, svc, [ClusterDocClientStop])
      | Inr c \<Rightarrow>
          (let svc1 = svc\<lparr>clusterDocClient := c\<rparr>
           in case configSubscription svc1 of
                None \<Rightarrow> (Resolved Undefined, svc1, [ClusterDocClientStop])
              | Some sub \<Rightarrow>
                  (Resolved Undefined, svc1\<lparr>configSubscription := None\<rparr>,
                   [ClusterDocClientStop, Unsubscribe])))"

text \<open>The service as the field initialisers of the class leave it.\<close>

definition plainAgent :: Agent where
  "plainAgent = \<lparr>keepAlive = True, agent_cert = None, agent_key = None, agent_ca = None\<rparr>"

definition newProxyService :: "'c \<Rightarrow> 'c ProxyService" where
  "newProxyService c =
     \<lparr>configSubscription = None, clusterDocClient = c,
      maxRetry = 0, requestBackoff = 0, port = 0,
      httpsAgent = plainAgent, httpAgent = plainAgent, allowUnauthAgent = plainAgent,
      wreck = Wreck\<rparr>"

section \<open>The configuration schema\<close>

text \<open>Raw configuration values, before validation.\<close>

datatype jsonv = JUndefined | JNumber int | JString string | JArray "jsonv list"

text \<open>
  Modelled from the spec: the validation library \<^verbatim>\<open>@kbn/config-schema\<close> is not among the
  sources; only the declaration \<open>ProxyConfig\<close> that uses it is. The combinators that the
  declaration uses are a datatype, and \<open>validate\<close> gives them the meaning the spec states:
  a value outside a schema is a configuration error and is never ignored, an omitted array
  takes its \<open>defaultValue\<close>, and an array shorter than \<open>minSize\<close> is rejected.
  \<open>SArrayOf t d m\<close> is \<^verbatim>\<open>schema.arrayOf(t, { defaultValue: d, minSize: m })\<close>.
\<close>

datatype schema_type =
    SNumber
  | SString
  | SLiteral string
  | SOneOf "schema_type list"
  | SArrayOf schema_type "jsonv option" "nat option"

fun firstOK :: "(string + jsonv) list \<Rightarrow> string + jsonv" where
  "firstOK [] = Inl ''types that failed validation''"
| "firstOK (Inr v # rs) = Inr v"
| "firstOK (Inl e # rs) = firstOK rs"

fun allOK :: "(string + jsonv) list \<Rightarrow> string + jsonv list" where
  "allOK [] = Inr []"
| "allOK (Inl e # rs) = Inl e"
| "allOK (Inr v # rs) = (case allOK rs of Inl e \<Rightarrow> Inl e | Inr vs \<Rightarrow> Inr (v # vs))"

fun validate :: "schema_type \<Rightarrow> jsonv \<Rightarrow> string + jsonv" where
  "validate SNumber v =
     (case v of JNumber n \<Rightarrow> Inr v | _ \<Rightarrow> Inl ''expected value of type [number]'')"
| "validate SString v =
     (case v of JString x \<Rightarrow> Inr v | _ \<Rightarrow> Inl ''expected value of type [string]'')"
| "validate (SLiteral l) v =
     (if v = JString l then Inr v else Inl (''expected value to equal ['' @ l @ '']''))"
| "validate (SOneOf ts) v = firstOK (map (\<lambda>t. validate t v) ts)"
| "validate (SArrayOf t d m) v =
     (case v of
        JUndefined \<Rightarrow>
          (case d of
             Some dv \<Rightarrow> Inr dv
           | None \<Rightarrow> Inl ''expected value of type [array] but got [undefined]'')
      | JArray xs \<Rightarrow>
          (if (case m of None \<Rightarrow> False | Some k \<Rightarrow> length xs < k)
           then Inl ''array size is smaller than the minimum''
           else (case allOK (map (validate t) xs) of
                   Inl e \<Rightarrow> Inl e
                 | Inr vs \<Rightarrow> Inr (JArray vs)))
      | _ \<Rightarrow> Inl ''expected value of type [array]'')"

text \<open>Modelled from the spec: \<^verbatim>\<open>schema.object\<close> validates each declared key, an omitted key as \<open>undefined\<close>.\<close>

fun validateObject ::
  "(string \<times> schema_type) list \<Rightarrow> (string \<times> jsonv) list \<Rightarrow> string + (string \<times> jsonv) list" where
  "validateObject [] raw = Inr []"
| "validateObject ((name, t) # props) raw =
     (case validate t (case map_of raw name of None \<Rightarrow> JUndefined | Some v \<Rightarrow> v) of
        Inl e \<Rightarrow> Inl (''['' @ name @ '']: '' @ e)
      | Inr v \<Rightarrow>
          (case validateObject props raw of
             Inl e \<Rightarrow> Inl e
           | Inr vs \<Rightarrow> Inr ((name, v) # vs)))"

text \<open>\<^verbatim>\<open>s.split(c)\<close> for a one-character separator: the pieces between the separators, in order.\<close>

fun split :: "char \<Rightarrow> string \<Rightarrow> string list" where
  "split c [] = [[]]"
| "split c (x # xs) =
     (if x = c then [] # split c xs
      else (case split c xs of
              [] \<Rightarrow> [[x]]
            | w # ws \<Rightarrow> (x # w) # ws))"

text \<open>
  The expression \<^verbatim>\<open>cryptoConstants.defulatCoreCipherList.split(':')\<close> over the platform's
  table \<open>crypto.constants\<close>, a map from property names to values. Reading a property the
  table does not have gives \<open>undefined\<close>, and calling \<open>split\<close> on it throws.
\<close>

definition cipherSuitesDefault :: "(string \<rightharpoonup> jsonv) \<Rightarrow> js_error + jsonv" where
  "cipherSuitesDefault cryptoConstants =
     (case cryptoConstants ''defulatCoreCipherList'' of
        None \<Rightarrow> Inl (TypeError ''Cannot read property split of undefined'')
      | Some (JString x) \<Rightarrow> Inr (JArray (map JString (split CHR '':'' x)))
      | Some _ \<Rightarrow> Inl (TypeError ''cryptoConstants.defulatCoreCipherList.split is not a function''))"

text \<open>The schema of \<open>supportedProtocols\<close>, as \<open>ProxyConfig\<close> declares it.\<close>

definition supportedProtocolsSchema :: schema_type where
  "supportedProtocolsSchema =
     SArrayOf (SOneOf [SLiteral ''TLSv1'', SLiteral ''TLSv1.1'', SLiteral ''TLSv1.2''])
       (Some (JArray [JString ''TLSv1.1'', JString ''TLSv1.2''])) (Some 1)"

text \<open>
  \<open>ProxyConfig.schema\<close>, built when the module is loaded: the defaults are evaluated then,
  so an exception in a default leaves the module without a schema.
\<close>

definition ProxyConfig :: "(string \<rightharpoonup> jsonv) \<Rightarrow> js_error + (string \<times> schema_type) list" where
  "ProxyConfig cryptoConstants =
     (case cipherSuitesDefault cryptoConstants of
        Inl e \<Rightarrow> Inl e
      | Inr d \<Rightarrow>
          Inr [(''updateInterval'', SNumber),
               (''timeoutThreshold'', SNumber),
               (''port'', SNumber),
               (''maxRetry'', SNumber),
               (''requestBackoff'', SNumber),
               (''cert'', SString),
               (''key'', SString),
               (''ca'', SString),
               (''cipherSuites'', SArrayOf SString (Some d) None),
               (''supportedProtocols'', supportedProtocolsSchema)])"

text \<open>Loading the module and validating a raw configuration against its schema.\<close>

definition validateProxyConfig ::
  "(string \<rightharpoonup> jsonv) \<Rightarrow> (string \<times> jsonv) list \<Rightarrow> js_error + (string \<times> jsonv) list" where
  "validateProxyConfig cryptoConstants raw =
     (case ProxyConfig cryptoConstants of
        Inl e \<Rightarrow> Inl e
      | Inr props \<Rightarrow>
          (case validateObject props raw of
             Inl m \<Rightarrow> Inl (Error m)
           | Inr vs \<Rightarrow> Inr vs))"

text \<open>The TLS version labels of the allow-list.\<close>

definition tlsLabels :: "jsonv set" where
  "tlsLabels = {JString ''TLSv1'', JString ''TLSv1.1'', JString ''TLSv1.2''}"

fun accepted :: "string + jsonv \<Rightarrow> bool" where
  "accepted (Inr v) = True"
| "accepted (Inl e) = False"

section \<open>Concrete inputs\<close>

text \<open>
  The scenario of the spec: \<open>maxRetry = 2\<close>, \<open>requestBackoff = 50\<close>, resource \<open>r1\<close> on
  node \<open>n1\<close>, and a request for it.
\<close>

definition r1_url :: URL where
  "r1_url = \<lparr>scheme = ''https'', username = [], password = [], host = Some ''kibana'',
             urlport = Some ''5601'', path = Segments [''r1''], query = Some ''q=1'',
             fragment = None\<rparr>"

definition r1_req :: KibanaRequest where
  "r1_req = \<lparr>route_method = ''post'', url = ''https://kibana:5601/r1?q=1'',
             headers = [(''content-type'', ''text/plain'')], body = ''ping''\<rparr>"

text \<open>A request with credentials, a longer path and a fragment in its URL.\<close>

definition r1_url_full :: URL where
  "r1_url_full = r1_url\<lparr>username := ''user'', password := ''pw'',
                         path := Segments [''r1'', ''sub''], fragment := Some ''top''\<rparr>"

definition r1_req_full :: KibanaRequest where
  "r1_req_full = r1_req\<lparr>url := ''https://user:pw@kibana:5601/r1/sub?q=1#top''\<rparr>"

definition parse_r1 :: "string \<Rightarrow> URL option" where
  "parse_r1 x =
     (if x = ''https://kibana:5601/r1?q=1'' then Some r1_url
      else if x = ''https://user:pw@kibana:5601/r1/sub?q=1#top'' then Some r1_url_full
      else None)"

text \<open>
  The host parser on the node addresses of the scenarios: \<open>n1\<close> is a host, \<open>N1\<close> is the
  host \<open>n1\<close>, and \<open>n1:9200\<close> is not a host (a colon ends the parse with a failure).
\<close>

definition parse_host_n1 :: "URL \<Rightarrow> string \<Rightarrow> string option" where
  "parse_host_n1 u v = (if v = ''n1'' \<or> v = ''N1'' then Some ''n1'' else None)"

definition svc_2_50 :: "unit ProxyService" where
  "svc_2_50 = (newProxyService ())\<lparr>maxRetry := 2, requestBackoff := 50, port := 5601,
                 configSubscription := Some Subscription\<rparr>"

text \<open>Routing stores: nothing assigned; \<open>r1\<close> never ready; \<open>r1\<close> ready from the second lookup on.\<close>

definition store_empty :: "nat \<Rightarrow> string \<Rightarrow> RoutingNode option" where
  "store_empty k r = None"

definition store_initializing :: "nat \<Rightarrow> string \<Rightarrow> RoutingNode option" where
  "store_initializing k r =
     (if r = ''r1'' then Some \<lparr>node = ''n1'', state = Initializing\<rparr> else None)"

definition store_ready_later :: "nat \<Rightarrow> string \<Rightarrow> RoutingNode option" where
  "store_ready_later k r =
     (if r = ''r1''
      then Some \<lparr>node = ''n1'', state = (if k = 0 then Initializing else Active)\<rparr>
      else None)"

definition store_active :: "nat \<Rightarrow> string \<Rightarrow> RoutingNode option" where
  "store_active k r = (if r = ''r1'' then Some \<lparr>node = ''n1'', state = Active\<rparr> else None)"

text \<open>A store whose entry for \<open>r1\<close> gives the node's address with a port.\<close>

definition store_with_port :: "nat \<Rightarrow> string \<Rightarrow> RoutingNode option" where
  "store_with_port k r =
     (if r = ''r1'' then Some \<lparr>node = ''n1:9200'', state = Active\<rparr> else None)"

text \<open>
  Backends: one that answers \<open>pong\<close>, one that refuses the connection; a read that
  delivers the payload, and one that loses the connection while reading.
\<close>

definition backend_up ::
  "WreckClient \<Rightarrow> string \<Rightarrow> string \<Rightarrow> headers \<Rightarrow> string \<Rightarrow> js_error + response" where
  "backend_up client m target h b = Inr (Response 200 ''pong'')"

definition backend_down ::
  "WreckClient \<Rightarrow> string \<Rightarrow> string \<Rightarrow> headers \<Rightarrow> string \<Rightarrow> js_error + response" where
  "backend_down client m target h b = Inl (Error ''connect ECONNREFUSED'')"

definition read_payload :: "response \<Rightarrow> js_error + string" where
  "read_payload res = (case res of Response code payload \<Rightarrow> Inr payload)"

definition read_broken :: "response \<Rightarrow> js_error + string" where
  "read_broken res = Inl (Error ''Payload stream closed prematurely'')"

definition world ::
  "(nat \<Rightarrow> string \<Rightarrow> RoutingNode option)
     \<Rightarrow> (WreckClient \<Rightarrow> string \<Rightarrow> string \<Rightarrow> headers \<Rightarrow> string \<Rightarrow> js_error + response)
     \<Rightarrow> collaborators" where
  "world store backend =
     \<lparr>parseURL = parse_r1, parseHost = parse_host_n1, getNodeForResource = store,
      wreck_request = backend, wreck_read = read_payload\<rparr>"

definition world_broken_read :: "(nat \<Rightarrow> string \<Rightarrow> RoutingNode option) \<Rightarrow> collaborators" where
  "world_broken_read store = (world store backend_up)\<lparr>wreck_read := read_broken\<rparr>"

text \<open>A platform with two sets of credential files, and two configuration snapshots.\<close>

definition files :: "(string \<times> string) list" where
  "files = [(''/tls/a.crt'', ''CERT A''), (''/tls/a.key'', ''KEY A''), (''/tls/a.ca'', ''CA A''),
            (''/tls/b.crt'', ''CERT B''), (''/tls/b.key'', ''KEY B''), (''/tls/b.ca'', ''CA B'')]"

definition disk :: "unit platform" where
  "disk =
     \<lparr>readFile = (\<lambda>path. case map_of files path of
                            None \<Rightarrow> Inl (Error (''ENOENT: no such file or directory, open '' @ path))
                          | Some content \<Rightarrow> Inr content),
      client_setup = Inr,
      client_stop = Inr,
      createNewServer = (\<lambda>p ssl. Inr (HttpSetup p ssl))\<rparr>"

definition configA :: ProxyPluginType where
  "configA =
     \<lparr>updateInterval = 1000, timeoutThreshold = 5000, config_port = 5601,
      config_maxRetry = 2, config_requestBackoff = 50,
      cert = ''/tls/a.crt'', key = ''/tls/a.key'', ca = ''/tls/a.ca'',
      cipherSuites = [''TLS_AES_256_GCM_SHA384''],
      supportedProtocols = [''TLSv1.1'', ''TLSv1.2'']\<rparr>"

definition configB :: ProxyPluginType where
  "configB =
     \<lparr>updateInterval = 1000, timeoutThreshold = 5000, config_port = 5602,
      config_maxRetry = 5, config_requestBackoff = 100,
      cert = ''/tls/b.crt'', key = ''/tls/b.key'', ca = ''/tls/b.ca'',
      cipherSuites = [''TLS_AES_256_GCM_SHA384''],
      supportedProtocols = [''TLSv1.2'']\<rparr>"

text \<open>
  The table \<open>crypto.constants\<close> of Node.js as far as this module reads it: the three
  \<open>SSL_OP_NO_TLSv1*\<close> flags and the cipher list under its name \<open>defaultCoreCipherList\<close>.
\<close>

definition nodeCryptoConstants :: "string \<rightharpoonup> jsonv" where
  "nodeCryptoConstants =
     map_of [(''SSL_OP_NO_TLSv1'', JNumber 67108864),
             (''SSL_OP_NO_TLSv1_1'', JNumber 268435456),
             (''SSL_OP_NO_TLSv1_2'', JNumber 134217728),
             (''defaultCoreCipherList'',
              JString ''TLS_AES_256_GCM_SHA384:TLS_AES_128_GCM_SHA256:ECDHE-RSA-AES128-GCM-SHA256'')]"

definition rawConfig :: "(string \<times> jsonv) list" where
  "rawConfig =
     [(''updateInterval'', JNumber 1000), (''timeoutThreshold'', JNumber 5000),
      (''port'', JNumber 5601), (''maxRetry'', JNumber 2), (''requestBackoff'', JNumber 50),
      (''cert'', JString ''/tls/a.crt''), (''key'', JString ''/tls/a.key''),
      (''ca'', JString ''/tls/a.ca'')]"

section \<open>Properties of the dispatcher\<close>

subsection \<open>One step of \<open>proxyRequest\<close>, branch by branch\<close>

lemma effectiveResource_empty: "effectiveResource (Some []) u = effectiveResource None u"
  by (simp add: effectiveResource_def)

lemma effectiveResource_Some_idem:
  "effectiveResource (Some (effectiveResource resource u)) u = effectiveResource resource u"
  by (simp add: effectiveResource_def split: option.splits)

lemma proxyRequest_no_url:
  "parseURL env (url req) = None \<Longrightarrow>
   proxyRequest env svc k req resource retryCount = (Rejected (TypeError ''Invalid URL''), [])"
  by (simp add: proxyRequest.simps)

lemma proxyRequest_absent:
  "parseURL env (url req) = Some u \<Longrightarrow>
   getNodeForResource env k (effectiveResource resource u) = None \<Longrightarrow>
   proxyRequest env svc k req resource retryCount =
     (Rejected (Error (''No node was found for resource '' @ effectiveResource resource u)),
      [GetNode (effectiveResource resource u),
       LogDebug (''No node was found for resource '' @ effectiveResource resource u)])"
  by (simp add: proxyRequest.simps Let_def)

lemma proxyRequest_ready:
  "parseURL env (url req) = Some u \<Longrightarrow>
   getNodeForResource env k (effectiveResource resource u) = Some n \<Longrightarrow>
   state n \<noteq> Initializing \<Longrightarrow>
   proxyRequest env svc k req resource retryCount =
     (fst (forward env (wreck svc) n u req (effectiveResource resource u)),
      GetNode (effectiveResource resource u)
        # snd (forward env (wreck svc) n u req (effectiveResource resource u)))"
  by (simp add: proxyRequest.simps Let_def split: prod.splits)

lemma proxyRequest_retry:
  "parseURL env (url req) = Some u \<Longrightarrow>
   getNodeForResource env k (effectiveResource resource u) = Some n \<Longrightarrow>
   state n = Initializing \<Longrightarrow> retryCount \<le> maxRetry svc \<Longrightarrow>
   proxyRequest env svc k req resource retryCount =
     (afterRetry (fst (proxyRequest env svc (Suc k) req (Some (effectiveResource resource u)) (retryCount + 1))),
      [GetNode (effectiveResource resource u),
       LogStillStarting (node n) retryCount (maxRetry svc) (requestBackoff svc),
       SetTimeout (requestBackoff svc)]
      @ snd (proxyRequest env svc (Suc k) req (Some (effectiveResource resource u)) (retryCount + 1))
      @ unhandled (fst (proxyRequest env svc (Suc k) req (Some (effectiveResource resource u)) (retryCount + 1))))"
  by (subst proxyRequest.simps) (simp add: Let_def split: prod.splits)

lemma proxyRequest_exhausted:
  "parseURL env (url req) = Some u \<Longrightarrow>
   getNodeForResource env k (effectiveResource resource u) = Some n \<Longrightarrow>
   state n = Initializing \<Longrightarrow> \<not> retryCount \<le> maxRetry svc \<Longrightarrow>
   proxyRequest env svc k req resource retryCount =
     (Rejected (Error ''maxRetries exceeded and node has not yet initialized''),
      [GetNode (effectiveResource resource u),
       LogStillStarting (node n) retryCount (maxRetry svc) (requestBackoff svc)])"
  by (subst proxyRequest.simps) (simp add: Let_def)

lemma forward_calls:
  "filter isWreckRequest (snd (forward env client n u req r)) =
     [WreckRequest client (route_method req) (toString (setHostname env u (node n)))
        (headers req) (body req)]"
  by (simp add: forward_def Let_def split: sum.splits)

lemma forward_waits: "filter isSetTimeout (snd (forward env client n u req r)) = []"
  by (simp add: forward_def Let_def split: sum.splits)

lemma first_event:
  assumes "parseURL env (url req) = Some u"
  shows "take 1 (snd (proxyRequest env svc k req resource retryCount)) =
           [GetNode (effectiveResource resource u)]"
proof (cases "getNodeForResource env k (effectiveResource resource u)")
  case None
  show ?thesis by (simp add: proxyRequest_absent [OF assms None])
next
  case (Some n)
  show ?thesis
  proof (cases "state n = Initializing")
    case False
    show ?thesis by (simp add: proxyRequest_ready [OF assms Some False])
  next
    case True
    show ?thesis
    proof (cases "retryCount \<le> maxRetry svc")
      case le: True
      show ?thesis by (simp add: proxyRequest_retry [OF assms Some True le])
    next
      case False
      show ?thesis by (simp add: proxyRequest_exhausted [OF assms Some True False])
    qed
  qed
qed

lemma setHostname_accepted:
  "path u = Segments ss \<Longrightarrow> parseHost env u v = Some h \<Longrightarrow>
   setHostname env u v = u\<lparr>host := Some h\<rparr>"
  by (simp add: setHostname_def)

lemma setHostname_ignored:
  "(\<exists>p. path u = Opaque p) \<or> parseHost env u v = None \<Longrightarrow> setHostname env u v = u"
  by (auto simp: setHostname_def split: url_path.splits)

lemma slash_segments: "(\<lambda>x. ''/'' @ x) = (#) CHR ''/''"
  by (rule ext) simp

lemma toString_host:
  "toString (u\<lparr>host := Some h\<rparr>) =
     scheme u @ '':'' @ ''//''
     @ (if username u \<noteq> [] \<or> password u \<noteq> []
        then username u @ (if password u \<noteq> [] then '':'' @ password u else []) @ ''@''
        else [])
     @ h
     @ (case urlport u of None \<Rightarrow> [] | Some p \<Rightarrow> '':'' @ p)
     @ (case path u of Opaque p \<Rightarrow> p | Segments ss \<Rightarrow> concat (map (\<lambda>x. ''/'' @ x) ss))
     @ (case query u of None \<Rightarrow> [] | Some q \<Rightarrow> ''?'' @ q)
     @ (case fragment u of None \<Rightarrow> [] | Some f \<Rightarrow> ''#'' @ f)"
  by (simp add: toString_def pathname_def)

lemma setupService_client:
  "setupService p svc0 c0 = (Inr out, svc) \<Longrightarrow>
   wreck svc = WreckDefaults (httpsAgent svc) (httpAgent svc) (allowUnauthAgent svc)"
  by (auto simp: setupService_def Let_def split: sum.splits prod.splits)

lemma parse_r1_req_full: "parseURL (world store backend) (url r1_req_full) = Some r1_url_full"
  by (simp add: world_def parse_r1_def r1_req_full_def r1_req_def)

lemma parse_r1_req: "parseURL (world store backend) (url r1_req) = Some r1_url"
  by (simp add: world_def parse_r1_def r1_req_def)

subsection \<open>A node that stays \<open>Initializing\<close>\<close>

text \<open>
  While every lookup finds the node \<open>Initializing\<close>, a call that starts at
  \<open>retryCount \<le> maxRetry\<close> looks the node up \<open>maxRetry - retryCount + 2\<close> times and waits
  \<open>maxRetry - retryCount + 1\<close> times; the last call throws inside the timer's callback, so
  the promise of the first call never settles.
\<close>

lemma initializing_forever:
  assumes parse: "parseURL env (url req) = Some u"
      and stuck: "\<forall>j. \<exists>n. getNodeForResource env j r = Some n \<and> state n = Initializing"
      and eff: "effectiveResource resource u = r"
  shows "fst (proxyRequest env svc k req resource retryCount) =
           (if retryCount \<le> maxRetry svc then Pending
            else Rejected (Error ''maxRetries exceeded and node has not yet initialized''))
         \<and> attempts (snd (proxyRequest env svc k req resource retryCount)) =
             (if retryCount \<le> maxRetry svc then nat (maxRetry svc - retryCount) + 2 else 1)
         \<and> waits (snd (proxyRequest env svc k req resource retryCount)) =
             (if retryCount \<le> maxRetry svc then nat (maxRetry svc - retryCount) + 1 else 0)
         \<and> backendCalls (snd (proxyRequest env svc k req resource retryCount)) = 0"
  using eff
proof (induction "nat (maxRetry svc + 1 - retryCount)" arbitrary: k resource retryCount)
  case 0
  then have over: "\<not> retryCount \<le> maxRetry svc" by simp
  from stuck obtain n where n: "getNodeForResource env k r = Some n" "state n = Initializing"
    by blast
  from n(1) have look: "getNodeForResource env k (effectiveResource resource u) = Some n"
    using "0.prems" by simp
  show ?case
    using over
    by (simp add: proxyRequest_exhausted [OF parse look n(2) over]
                  attempts_def waits_def backendCalls_def)
next
  case (Suc m)
  then have le: "retryCount \<le> maxRetry svc" by simp
  from stuck obtain n where n: "getNodeForResource env k r = Some n" "state n = Initializing"
    by blast
  from n(1) have look: "getNodeForResource env k (effectiveResource resource u) = Some n"
    using Suc.prems by simp
  have m: "m = nat (maxRetry svc + 1 - (retryCount + 1))"
    using Suc.hyps(2) by simp
  have eff': "effectiveResource (Some (effectiveResource resource u)) u = r"
    using Suc.prems effectiveResource_Some_idem [of resource u] by simp
  note IH = Suc.hyps(1) [OF m eff', of "Suc k"]
  show ?case
  proof (cases "retryCount + 1 \<le> maxRetry svc")
    case True
    with IH le show ?thesis
      by (simp add: proxyRequest_retry [OF parse look n(2) le]
                    attempts_def waits_def backendCalls_def nat_diff_distrib)
  next
    case False
    with le have "maxRetry svc - retryCount = 0" by simp
    with IH le False show ?thesis
      by (simp add: proxyRequest_retry [OF parse look n(2) le]
                    attempts_def waits_def backendCalls_def)
  qed
qed

text \<open>
  C1: the scenario of the spec (\<open>maxRetry = 2\<close>, \<open>requestBackoff = 50\<close>, \<open>r1\<close> on \<open>n1\<close>,
  never ready), as the code runs it: four lookups with their readiness checks
  (retry counts 0, 1, 2 and 3), three waits of 50 ms, no backend call; the error
  "maxRetries exceeded" is thrown in the timer's callback, where nothing handles it, and
  the promise of the original call stays pending.
\<close>

theorem proxyRequest_initializing_maxRetry_2:
  "proxyRequest (world store_initializing backend_up) svc_2_50 0 r1_req (Some ''r1'') 0 =
     (Pending,
      [GetNode ''r1'', LogStillStarting ''n1'' 0 2 50, SetTimeout 50,
       GetNode ''r1'', LogStillStarting ''n1'' 1 2 50, SetTimeout 50,
       GetNode ''r1'', LogStillStarting ''n1'' 2 2 50, SetTimeout 50,
       GetNode ''r1'', LogStillStarting ''n1'' 3 2 50,
       UnhandledRejection (Error ''maxRetries exceeded and node has not yet initialized'')])
   \<and> attempts (snd (proxyRequest (world store_initializing backend_up) svc_2_50 0 r1_req (Some ''r1'') 0)) = 4
   \<and> waits (snd (proxyRequest (world store_initializing backend_up) svc_2_50 0 r1_req (Some ''r1'') 0)) = 3
   \<and> backendCalls (snd (proxyRequest (world store_initializing backend_up) svc_2_50 0 r1_req (Some ''r1'') 0)) = 0"
proof -
  have run: "proxyRequest (world store_initializing backend_up) svc_2_50 0 r1_req (Some ''r1'') 0 =
     (Pending,
      [GetNode ''r1'', LogStillStarting ''n1'' 0 2 50, SetTimeout 50,
       GetNode ''r1'', LogStillStarting ''n1'' 1 2 50, SetTimeout 50,
       GetNode ''r1'', LogStillStarting ''n1'' 2 2 50, SetTimeout 50,
       GetNode ''r1'', LogStillStarting ''n1'' 3 2 50,
       UnhandledRejection (Error ''maxRetries exceeded and node has not yet initialized'')])"
    by code_simp
  show ?thesis
    by (simp add: run attempts_def waits_def backendCalls_def)
qed

subsection \<open>The value a retried call resolves with\<close>

text \<open>A call that finds the node \<open>Initializing\<close> never resolves with a backend payload.\<close>

lemma retry_drops_response:
  assumes "parseURL env (url req) = Some u"
      and "getNodeForResource env k (effectiveResource resource u) = Some n"
      and "state n = Initializing"
  shows "fst (proxyRequest env svc k req resource retryCount) \<noteq> Resolved (Payload d)"
proof (cases "retryCount \<le> maxRetry svc")
  case True
  show ?thesis
    by (simp add: proxyRequest_retry [OF assms True])
       (cases "fst (proxyRequest env svc (Suc k) req (Some (effectiveResource resource u)) (retryCount + 1))";
        simp)
next
  case False
  show ?thesis by (simp add: proxyRequest_exhausted [OF assms False])
qed

text \<open>
  C2: the second scenario of the spec, where \<open>n1\<close> is ready after the first backoff and the
  backend answers \<open>pong\<close>. The retried call forwards and reads the answer, and the promise
  of the original call resolves with \<open>undefined\<close>; the same request on a node that is
  ready at once resolves with the payload \<open>pong\<close>.
\<close>

theorem proxyRequest_retry_resolves_undefined:
  "proxyRequest (world store_ready_later backend_up) svc_2_50 0 r1_req (Some ''r1'') 0 =
     (Resolved Undefined,
      [GetNode ''r1'', LogStillStarting ''n1'' 0 2 50, SetTimeout 50,
       GetNode ''r1'',
       WreckRequest Wreck ''post'' ''https://n1:5601/r1?q=1'' [(''content-type'', ''text/plain'')] ''ping'',
       WreckRead (Response 200 ''pong'')])
   \<and> proxyRequest (world store_active backend_up) svc_2_50 0 r1_req (Some ''r1'') 0 =
     (Resolved (Payload ''pong''),
      [GetNode ''r1'',
       WreckRequest Wreck ''post'' ''https://n1:5601/r1?q=1'' [(''content-type'', ''text/plain'')] ''ping'',
       WreckRead (Response 200 ''pong'')])"
proof (rule conjI)
  show "proxyRequest (world store_ready_later backend_up) svc_2_50 0 r1_req (Some ''r1'') 0 =
     (Resolved Undefined,
      [GetNode ''r1'', LogStillStarting ''n1'' 0 2 50, SetTimeout 50,
       GetNode ''r1'',
       WreckRequest Wreck ''post'' ''https://n1:5601/r1?q=1'' [(''content-type'', ''text/plain'')] ''ping'',
       WreckRead (Response 200 ''pong'')])"
    by code_simp
  show "proxyRequest (world store_active backend_up) svc_2_50 0 r1_req (Some ''r1'') 0 =
     (Resolved (Payload ''pong''),
      [GetNode ''r1'',
       WreckRequest Wreck ''post'' ''https://n1:5601/r1?q=1'' [(''content-type'', ''text/plain'')] ''ping'',
       WreckRead (Response 200 ''pong'')])"
    by code_simp
qed

subsection \<open>Unowned resources, forwarding, transport failures\<close>

text \<open>
  C4: when the effective resource has no entry in the routing store, the call rejects at
  once with the "no node" error; its only effects are the lookup and a debug line, so it
  issues no backend call and schedules no retry.
\<close>

theorem proxyRequest_no_node:
  assumes "parseURL env (url req) = Some u"
      and "getNodeForResource env k (effectiveResource resource u) = None"
  shows "proxyRequest env svc k req resource retryCount =
           (Rejected (Error (''No node was found for resource '' @ effectiveResource resource u)),
            [GetNode (effectiveResource resource u),
             LogDebug (''No node was found for resource '' @ effectiveResource resource u)])
         \<and> backendCalls (snd (proxyRequest env svc k req resource retryCount)) = 0
         \<and> waits (snd (proxyRequest env svc k req resource retryCount)) = 0
         \<and> attempts (snd (proxyRequest env svc k req resource retryCount)) = 1"
  by (simp add: proxyRequest_absent [OF assms] backendCalls_def waits_def attempts_def)

text \<open>C4 at the empty routing store: the request for \<open>r1\<close> is rejected after one lookup.\<close>

theorem proxyRequest_no_node_witness:
  "proxyRequest (world store_empty backend_up) svc_2_50 0 r1_req (Some ''r1'') 0 =
     (Rejected (Error ''No node was found for resource r1''),
      [GetNode ''r1'', LogDebug ''No node was found for resource r1''])
   \<and> backendCalls (snd (proxyRequest (world store_empty backend_up) svc_2_50 0 r1_req (Some ''r1'') 0)) = 0
   \<and> waits (snd (proxyRequest (world store_empty backend_up) svc_2_50 0 r1_req (Some ''r1'') 0)) = 0"
proof -
  have look: "getNodeForResource (world store_empty backend_up) 0 (effectiveResource (Some ''r1'') r1_url) = None"
    by (simp add: world_def store_empty_def)
  have eff: "effectiveResource (Some ''r1'') r1_url = ''r1''"
    by (simp add: effectiveResource_def)
  from proxyRequest_no_node [OF parse_r1_req look, of svc_2_50 0] eff
  show ?thesis by (simp add: backendCalls_def waits_def)
qed

subsection \<open>What \<open>setup\<close> leaves\<close>

lemma configureSSL_ok:
  "configureSSL env svc c = (Inr ssl, svc') \<Longrightarrow>
   \<exists>tlsCert tlsKey tlsCa.
     readFile env (cert c) = Inr tlsCert \<and> readFile env (key c) = Inr tlsKey
     \<and> readFile env (ca c) = Inr tlsCa
     \<and> svc' = svc\<lparr>httpsAgent := \<lparr>keepAlive = True, agent_cert = Some tlsCert,
                                  agent_key = Some tlsKey, agent_ca = Some tlsCa\<rparr>\<rparr>"
  by (auto simp: configureSSL_def split: sum.splits)

lemma setupService_ok:
  assumes "setupService env svc c0 = (Inr out, svc1)"
  shows "\<exists>tlsCert tlsKey tlsCa.
           readFile env (cert c0) = Inr tlsCert \<and> readFile env (key c0) = Inr tlsKey
           \<and> readFile env (ca c0) = Inr tlsCa
           \<and> httpsAgent svc1 = \<lparr>keepAlive = True, agent_cert = Some tlsCert,
                                  agent_key = Some tlsKey, agent_ca = Some tlsCa\<rparr>
           \<and> wreck svc1 = WreckDefaults (httpsAgent svc1) (httpAgent svc) (allowUnauthAgent svc)"
    and "configSubscription svc1 = Some Subscription"
    and "port svc1 = config_port c0 \<and> maxRetry svc1 = config_maxRetry c0
         \<and> requestBackoff svc1 = config_requestBackoff c0"
  using assms
  by (auto simp: setupService_def Let_def setConfig_def configEmitted_def
           split: sum.splits prod.splits dest!: configureSSL_ok)

lemma setup_A:
  "setupService disk (newProxyService ()) configA =
     (Inr (HttpSetup 5601
            \<lparr>enabled = True, redirectHttpFromPort = 5601, certificate = ''CERT A'',
             ssl_key = ''KEY A'', certificateAuthorities = [''CA A''],
             ssl_cipherSuites = [''TLS_AES_256_GCM_SHA384''], keyPassphrase = None,
             ssl_supportedProtocols = [''TLSv1.1'', ''TLSv1.2'']\<rparr>),
      \<lparr>configSubscription = Some Subscription, clusterDocClient = (),
       maxRetry = 2, requestBackoff = 50, port = 5601,
       httpsAgent = \<lparr>keepAlive = True, agent_cert = Some ''CERT A'',
                     agent_key = Some ''KEY A'', agent_ca = Some ''CA A''\<rparr>,
       httpAgent = plainAgent, allowUnauthAgent = plainAgent,
       wreck = WreckDefaults \<lparr>keepAlive = True, agent_cert = Some ''CERT A'',
                              agent_key = Some ''KEY A'', agent_ca = Some ''CA A''\<rparr>
                 plainAgent plainAgent\<rparr>)"
  by (simp add: setupService_def disk_def files_def configA_def newProxyService_def
                configureSSL_def setConfig_def configEmitted_def Let_def)

subsection \<open>Forwarding\<close>

text \<open>
  C5, as the code has it: when the node found for the effective resource is not
  \<open>Initializing\<close>, the call issues exactly one outbound request, on the client
  \<open>this.wreck\<close> (after \<open>setup\<close>, the client built over the three agents), with the
  method, headers and body of the request. Its target is the request URL after the
  assignment of the node's address to \<open>url.hostname\<close>: when the platform accepts the
  address as a host, the target is the request URL with that host in place of its own and
  every other component as it was; on a URL with an opaque path, or when the address is not
  accepted, the URL is not changed.
\<close>

theorem proxyRequest_forwards_once:
  assumes "parseURL env (url req) = Some u"
      and "getNodeForResource env k (effectiveResource resource u) = Some n"
      and "state n \<noteq> Initializing"
  shows "filter isWreckRequest (snd (proxyRequest env svc k req resource retryCount)) =
           [WreckRequest (wreck svc) (route_method req) (toString (setHostname env u (node n)))
              (headers req) (body req)]
         \<and> backendCalls (snd (proxyRequest env svc k req resource retryCount)) = 1
         \<and> (path u = Segments ss \<and> parseHost env u (node n) = Some h \<longrightarrow>
              toString (setHostname env u (node n)) =
                scheme u @ '':'' @ ''//''
                @ (if username u \<noteq> [] \<or> password u \<noteq> []
                   then username u @ (if password u \<noteq> [] then '':'' @ password u else []) @ ''@''
                   else [])
                @ h
                @ (case urlport u of None \<Rightarrow> [] | Some p \<Rightarrow> '':'' @ p)
                @ concat (map (\<lambda>x. ''/'' @ x) ss)
                @ (case query u of None \<Rightarrow> [] | Some q \<Rightarrow> ''?'' @ q)
                @ (case fragment u of None \<Rightarrow> [] | Some f \<Rightarrow> ''#'' @ f))
         \<and> ((\<exists>p. path u = Opaque p) \<or> parseHost env u (node n) = None \<longrightarrow>
              setHostname env u (node n) = u)
         \<and> (setupService p svc0 c0 = (Inr out, svc) \<longrightarrow>
              wreck svc = WreckDefaults (httpsAgent svc) (httpAgent svc) (allowUnauthAgent svc))"
proof (intro conjI impI)
  show "filter isWreckRequest (snd (proxyRequest env svc k req resource retryCount)) =
           [WreckRequest (wreck svc) (route_method req) (toString (setHostname env u (node n)))
              (headers req) (body req)]"
    by (simp add: proxyRequest_ready [OF assms] forward_calls)
  then show "backendCalls (snd (proxyRequest env svc k req resource retryCount)) = 1"
    by (simp add: backendCalls_def)
next
  assume "path u = Segments ss \<and> parseHost env u (node n) = Some h"
  then show "toString (setHostname env u (node n)) =
                scheme u @ '':'' @ ''//''
                @ (if username u \<noteq> [] \<or> password u \<noteq> []
                   then username u @ (if password u \<noteq> [] then '':'' @ password u else []) @ ''@''
                   else [])
                @ h
                @ (case urlport u of None \<Rightarrow> [] | Some p \<Rightarrow> '':'' @ p)
                @ concat (map (\<lambda>x. ''/'' @ x) ss)
                @ (case query u of None \<Rightarrow> [] | Some q \<Rightarrow> ''?'' @ q)
                @ (case fragment u of None \<Rightarrow> [] | Some f \<Rightarrow> ''#'' @ f)"
    by (simp add: setHostname_accepted toString_host slash_segments)
next
  assume "(\<exists>p. path u = Opaque p) \<or> parseHost env u (node n) = None"
  then show "setHostname env u (node n) = u"
    by (rule setHostname_ignored)
next
  assume "setupService p svc0 c0 = (Inr out, svc)"
  then show "wreck svc = WreckDefaults (httpsAgent svc) (httpAgent svc) (allowUnauthAgent svc)"
    by (rule setupService_client)
qed

text \<open>
  C5 on the ready node \<open>n1\<close>: for the service that \<open>setup\<close> leaves, one request on the
  client over the three agents, to \<open>https://user:pw@n1:5601/r1/sub?q=1#top\<close>; for the
  service of the scenario, one request to \<open>https://n1:5601/r1?q=1\<close>; and the address
  \<open>n1:9200\<close> leaves the request URL as it was.
\<close>

theorem proxyRequest_forwards_once_witness:
  "filter isWreckRequest
     (snd (proxyRequest (world store_active backend_down)
             (snd (setupService disk (newProxyService ()) configA)) 0 r1_req_full (Some ''r1'') 0)) =
     [WreckRequest
        (WreckDefaults \<lparr>keepAlive = True, agent_cert = Some ''CERT A'',
                         agent_key = Some ''KEY A'', agent_ca = Some ''CA A''\<rparr>
           plainAgent plainAgent)
        ''post'' ''https://user:pw@n1:5601/r1/sub?q=1#top'' [(''content-type'', ''text/plain'')] ''ping'']
   \<and> filter isWreckRequest
        (snd (proxyRequest (world store_active backend_up) svc_2_50 0 r1_req (Some ''r1'') 0)) =
        [WreckRequest Wreck ''post'' ''https://n1:5601/r1?q=1'' [(''content-type'', ''text/plain'')] ''ping'']
   \<and> setHostname (world store_with_port backend_up) r1_url ''n1:9200'' = r1_url"
proof -
  let ?n = "\<lparr>node = ''n1'', state = Active\<rparr>"
  let ?m = "\<lparr>node = ''n1:9200'', state = Active\<rparr>"
  let ?svc = "snd (setupService disk (newProxyService ()) configA)"
  have ready: "state ?n \<noteq> Initializing" "state ?m \<noteq> Initializing"
    by simp_all
  have host: "parseHost (world store backend) u (node ?n) = Some ''n1''" for store backend u
    by (simp add: world_def parse_host_n1_def)
  have no_host: "parseHost (world store_with_port backend_up) r1_url (node ?m) = None"
    by (simp add: world_def parse_host_n1_def)
  have look_full: "getNodeForResource (world store_active backend_down) 0
                     (effectiveResource (Some ''r1'') r1_url_full) = Some ?n"
    by (simp add: world_def store_active_def effectiveResource_def)
  have look: "getNodeForResource (world store_active backend_up) 0
                (effectiveResource (Some ''r1'') r1_url) = Some ?n"
    by (simp add: world_def store_active_def effectiveResource_def)
  have look_port: "getNodeForResource (world store_with_port backend_up) 0
                     (effectiveResource (Some ''r1'') r1_url) = Some ?m"
    by (simp add: world_def store_with_port_def effectiveResource_def)
  have path_full: "path r1_url_full = Segments [''r1'', ''sub'']"
    by (simp add: r1_url_full_def)
  have path: "path r1_url = Segments [''r1'']"
    by (simp add: r1_url_def)
  have pair: "setupService disk (newProxyService ()) configA =
                (Inr (projr (fst (setupService disk (newProxyService ()) configA))), ?svc)"
    by (simp add: setup_A)
  note full = proxyRequest_forwards_once [OF parse_r1_req_full look_full ready(1),
                where svc = ?svc and retryCount = 0 and ss = "[''r1'', ''sub'']" and h = "''n1''"
                  and p = disk and ?svc0.0 = "newProxyService ()" and ?c0.0 = configA
                  and out = "projr (fst (setupService disk (newProxyService ()) configA))"]
  note plain = proxyRequest_forwards_once [OF parse_r1_req look ready(1),
                 where svc = svc_2_50 and retryCount = 0 and ss = "[''r1'']" and h = "''n1''"]
  note port = proxyRequest_forwards_once [OF parse_r1_req look_port ready(2),
                where svc = svc_2_50 and retryCount = 0]
  have client: "wreck ?svc =
                  WreckDefaults \<lparr>keepAlive = True, agent_cert = Some ''CERT A'',
                                  agent_key = Some ''KEY A'', agent_ca = Some ''CA A''\<rparr>
                    plainAgent plainAgent"
  proof -
    from full pair have "wreck ?svc = WreckDefaults (httpsAgent ?svc) (httpAgent ?svc) (allowUnauthAgent ?svc)"
      by blast
    then show ?thesis by (simp add: setup_A)
  qed
  have target_full: "toString (setHostname (world store_active backend_down) r1_url_full (node ?n))
                       = ''https://user:pw@n1:5601/r1/sub?q=1#top''"
  proof -
    from full path_full host [of store_active backend_down r1_url_full]
    have "toString (setHostname (world store_active backend_down) r1_url_full (node ?n)) =
            scheme r1_url_full @ '':'' @ ''//''
            @ (if username r1_url_full \<noteq> [] \<or> password r1_url_full \<noteq> []
               then username r1_url_full
                    @ (if password r1_url_full \<noteq> [] then '':'' @ password r1_url_full else []) @ ''@''
               else [])
            @ ''n1''
            @ (case urlport r1_url_full of None \<Rightarrow> [] | Some p \<Rightarrow> '':'' @ p)
            @ concat (map (\<lambda>x. ''/'' @ x) [''r1'', ''sub''])
            @ (case query r1_url_full of None \<Rightarrow> [] | Some q \<Rightarrow> ''?'' @ q)
            @ (case fragment r1_url_full of None \<Rightarrow> [] | Some f \<Rightarrow> ''#'' @ f)"
      by blast
    then show ?thesis by (simp add: r1_url_full_def r1_url_def)
  qed
  have target: "toString (setHostname (world store_active backend_up) r1_url (node ?n))
                  = ''https://n1:5601/r1?q=1''"
  proof -
    from plain path host [of store_active backend_up r1_url]
    have "toString (setHostname (world store_active backend_up) r1_url (node ?n)) =
            scheme r1_url @ '':'' @ ''//''
            @ (if username r1_url \<noteq> [] \<or> password r1_url \<noteq> []
               then username r1_url
                    @ (if password r1_url \<noteq> [] then '':'' @ password r1_url else []) @ ''@''
               else [])
            @ ''n1''
            @ (case urlport r1_url of None \<Rightarrow> [] | Some p \<Rightarrow> '':'' @ p)
            @ concat (map (\<lambda>x. ''/'' @ x) [''r1''])
            @ (case query r1_url of None \<Rightarrow> [] | Some q \<Rightarrow> ''?'' @ q)
            @ (case fragment r1_url of None \<Rightarrow> [] | Some f \<Rightarrow> ''#'' @ f)"
      by blast
    then show ?thesis by (simp add: r1_url_def)
  qed
  have one: "filter isWreckRequest
     (snd (proxyRequest (world store_active backend_down) ?svc 0 r1_req_full (Some ''r1'') 0)) =
     [WreckRequest
        (WreckDefaults \<lparr>keepAlive = True, agent_cert = Some ''CERT A'',
                         agent_key = Some ''KEY A'', agent_ca = Some ''CA A''\<rparr>
           plainAgent plainAgent)
        ''post'' ''https://user:pw@n1:5601/r1/sub?q=1#top'' [(''content-type'', ''text/plain'')] ''ping'']"
    using full [THEN conjunct1]
    by (simp only: target_full client) (simp add: r1_req_full_def r1_req_def)
  have two: "filter isWreckRequest
        (snd (proxyRequest (world store_active backend_up) svc_2_50 0 r1_req (Some ''r1'') 0)) =
        [WreckRequest Wreck ''post'' ''https://n1:5601/r1?q=1'' [(''content-type'', ''text/plain'')] ''ping'']"
    using plain [THEN conjunct1]
    by (simp only: target) (simp add: r1_req_def svc_2_50_def newProxyService_def)
  have three: "setHostname (world store_with_port backend_up) r1_url ''n1:9200'' = r1_url"
  proof -
    from port no_host
    have "setHostname (world store_with_port backend_up) r1_url (node ?m) = r1_url"
      by blast
    then show ?thesis by simp
  qed
  from one two three show ?thesis by (intro conjI)
qed

text \<open>
  C5 as stated fails: the entry of \<open>r1\<close> gives the address \<open>n1:9200\<close>, which the setter
  of \<open>hostname\<close> does not accept; the one request goes to the host of the request URL,
  \<open>kibana\<close>, not to the node.
\<close>

theorem forward_target_counterexample:
  "filter isWreckRequest
     (snd (proxyRequest (world store_with_port backend_up) svc_2_50 0 r1_req (Some ''r1'') 0)) =
     [WreckRequest Wreck ''post'' ''https://kibana:5601/r1?q=1'' [(''content-type'', ''text/plain'')] ''ping'']"
  by code_simp

text \<open>
  A rejection of \<open>wreck.request\<close> is caught: the call rejects with a message naming node,
  resource and cause, and does nothing after the warning. A rejection of \<open>Wreck.read\<close>
  is not caught: the call rejects with the error of the read as it is.
\<close>

lemma request_failure_wrapped:
  assumes "parseURL env (url req) = Some u"
      and "getNodeForResource env k (effectiveResource resource u) = Some n"
      and "state n \<noteq> Initializing"
      and "wreck_request env (wreck svc) (route_method req) (toString (setHostname env u (node n)))
             (headers req) (body req) = Inl err"
  shows "proxyRequest env svc k req resource retryCount =
           (Rejected (Error (''Unable to complete request to '' @ node n @ '' for ''
                              @ effectiveResource resource u @ '' because '' @ message err)),
            [GetNode (effectiveResource resource u),
             WreckRequest (wreck svc) (route_method req) (toString (setHostname env u (node n)))
               (headers req) (body req),
             LogWarn (''Unable to complete request to '' @ node n @ '' for ''
                       @ effectiveResource resource u @ '' because '' @ message err)])"
  using assms(4)
  by (simp add: proxyRequest_ready [OF assms(1-3)] forward_def Let_def)

lemma read_failure_unwrapped:
  assumes "parseURL env (url req) = Some u"
      and "getNodeForResource env k (effectiveResource resource u) = Some n"
      and "state n \<noteq> Initializing"
      and "wreck_request env (wreck svc) (route_method req) (toString (setHostname env u (node n)))
             (headers req) (body req) = Inr res"
      and "wreck_read env res = Inl err"
  shows "proxyRequest env svc k req resource retryCount =
           (Rejected err,
            [GetNode (effectiveResource resource u),
             WreckRequest (wreck svc) (route_method req) (toString (setHostname env u (node n)))
               (headers req) (body req),
             WreckRead res])"
  using assms(4,5)
  by (simp add: proxyRequest_ready [OF assms(1-3)] forward_def Let_def)

text \<open>
  C6, on two transport failures of the forwarded call. The backend accepts the request
  and the connection is lost while the payload is read: the call rejects with the error of
  the read, which names neither the node nor the resource. The node is ready after one
  backoff and the backend refuses the connection: the retried call rejects with the
  message naming node, resource and cause, inside the timer's callback, and the promise of
  the original call stays pending.
\<close>

theorem transport_failure_unwrapped_or_lost:
  "proxyRequest (world_broken_read store_active) svc_2_50 0 r1_req (Some ''r1'') 0 =
     (Rejected (Error ''Payload stream closed prematurely''),
      [GetNode ''r1'',
       WreckRequest Wreck ''post'' ''https://n1:5601/r1?q=1'' [(''content-type'', ''text/plain'')] ''ping'',
       WreckRead (Response 200 ''pong'')])
   \<and> proxyRequest (world store_ready_later backend_down) svc_2_50 0 r1_req (Some ''r1'') 0 =
     (Pending,
      [GetNode ''r1'', LogStillStarting ''n1'' 0 2 50, SetTimeout 50,
       GetNode ''r1'',
       WreckRequest Wreck ''post'' ''https://n1:5601/r1?q=1'' [(''content-type'', ''text/plain'')] ''ping'',
       LogWarn ''Unable to complete request to n1 for r1 because connect ECONNREFUSED'',
       UnhandledRejection
         (Error ''Unable to complete request to n1 for r1 because connect ECONNREFUSED'')])"
proof (rule conjI)
  show "proxyRequest (world_broken_read store_active) svc_2_50 0 r1_req (Some ''r1'') 0 =
     (Rejected (Error ''Payload stream closed prematurely''),
      [GetNode ''r1'',
       WreckRequest Wreck ''post'' ''https://n1:5601/r1?q=1'' [(''content-type'', ''text/plain'')] ''ping'',
       WreckRead (Response 200 ''pong'')])"
    by code_simp
  show "proxyRequest (world store_ready_later backend_down) svc_2_50 0 r1_req (Some ''r1'') 0 =
     (Pending,
      [GetNode ''r1'', LogStillStarting ''n1'' 0 2 50, SetTimeout 50,
       GetNode ''r1'',
       WreckRequest Wreck ''post'' ''https://n1:5601/r1?q=1'' [(''content-type'', ''text/plain'')] ''ping'',
       LogWarn ''Unable to complete request to n1 for r1 because connect ECONNREFUSED'',
       UnhandledRejection
         (Error ''Unable to complete request to n1 for r1 because connect ECONNREFUSED'')])"
    by code_simp
qed

text \<open>
  C10: a call whose explicit resource argument is the empty string behaves exactly as the
  call with no resource argument, in result and effects; and whenever the request URL
  parses, the first effect of either call is the lookup of the URL's pathname.
\<close>

theorem proxyRequest_empty_resource:
  "proxyRequest env svc k req (Some '''') retryCount = proxyRequest env svc k req None retryCount
   \<and> (parseURL env (url req) = Some u \<longrightarrow>
        take 1 (snd (proxyRequest env svc k req (Some '''') retryCount)) = [GetNode (pathname u)]
        \<and> take 1 (snd (proxyRequest env svc k req None retryCount)) = [GetNode (pathname u)])"
proof (intro conjI impI)
  show "proxyRequest env svc k req (Some '''') retryCount = proxyRequest env svc k req None retryCount"
    by (simp add: proxyRequest.simps[of _ _ _ _ "Some []"] proxyRequest.simps[of _ _ _ _ None]
                  effectiveResource_empty cong: option.case_cong)
next
  assume parse: "parseURL env (url req) = Some u"
  show "take 1 (snd (proxyRequest env svc k req (Some '''') retryCount)) = [GetNode (pathname u)]"
    using first_event [OF parse, of svc k "Some []" retryCount]
    by (simp add: effectiveResource_def)
  show "take 1 (snd (proxyRequest env svc k req None retryCount)) = [GetNode (pathname u)]"
    using first_event [OF parse, of svc k None retryCount]
    by (simp add: effectiveResource_def)
qed

text \<open>
  C10 at the empty routing store, on two requests: the lookups are made for the pathnames
  \<open>/r1\<close> and \<open>/r1/sub\<close>.
\<close>

theorem proxyRequest_empty_resource_witness:
  "proxyRequest (world store_empty backend_up) svc_2_50 0 r1_req (Some '''') 0 =
     (Rejected (Error ''No node was found for resource /r1''),
      [GetNode ''/r1'', LogDebug ''No node was found for resource /r1''])
   \<and> take 1 (snd (proxyRequest (world store_empty backend_up) svc_2_50 0 r1_req_full (Some '''') 0))
       = [GetNode ''/r1/sub'']"
proof -
  note t = proxyRequest_empty_resource [of "world store_empty backend_up" svc_2_50 0 r1_req 0 r1_url]
  note t_full = proxyRequest_empty_resource
                  [of "world store_empty backend_up" svc_2_50 0 r1_req_full 0 r1_url_full]
  have none: "proxyRequest (world store_empty backend_up) svc_2_50 0 r1_req None 0 =
     (Rejected (Error ''No node was found for resource /r1''),
      [GetNode ''/r1'', LogDebug ''No node was found for resource /r1''])"
    by code_simp
  have one: "proxyRequest (world store_empty backend_up) svc_2_50 0 r1_req (Some '''') 0 =
     (Rejected (Error ''No node was found for resource /r1''),
      [GetNode ''/r1'', LogDebug ''No node was found for resource /r1''])"
    using t [THEN conjunct1] none by simp
  have name: "pathname r1_url_full = ''/r1/sub''"
    by (simp add: pathname_def r1_url_full_def)
  have two: "take 1 (snd (proxyRequest (world store_empty backend_up) svc_2_50 0 r1_req_full (Some '''') 0))
       = [GetNode ''/r1/sub'']"
    using t_full [THEN conjunct2] parse_r1_req_full [of store_empty backend_up] name by simp
  from one two show ?thesis by (rule conjI)
qed

section \<open>Properties of the lifecycle\<close>

subsection \<open>Configuration snapshots\<close>

lemma configEmitted_agent: "httpsAgent (configEmitted svc c) = httpsAgent svc"
  by (simp add: configEmitted_def setConfig_def split: option.splits)

lemma configEmitted_wreck: "wreck (configEmitted svc c) = wreck svc"
  by (simp add: configEmitted_def setConfig_def split: option.splits)

lemma configEmitted_subscription: "configSubscription (configEmitted svc c) = configSubscription svc"
  by (simp add: configEmitted_def setConfig_def split: option.splits)

lemma configEmitted_fields:
  "configSubscription svc \<noteq> None \<Longrightarrow>
   port (configEmitted svc c) = config_port c
   \<and> maxRetry (configEmitted svc c) = config_maxRetry c
   \<and> requestBackoff (configEmitted svc c) = config_requestBackoff c"
  by (auto simp: configEmitted_def setConfig_def)

lemma emitted_all_agent: "httpsAgent (foldl configEmitted svc cs) = httpsAgent svc"
  by (induction cs arbitrary: svc) (simp_all add: configEmitted_agent)

lemma emitted_all_wreck: "wreck (foldl configEmitted svc cs) = wreck svc"
  by (induction cs arbitrary: svc) (simp_all add: configEmitted_wreck)

lemma emitted_all_subscription:
  "configSubscription (foldl configEmitted svc cs) = configSubscription svc"
  by (induction cs arbitrary: svc) (simp_all add: configEmitted_subscription)

lemma emitted_all_fields:
  "configSubscription svc \<noteq> None \<Longrightarrow> cs \<noteq> [] \<Longrightarrow>
   port (foldl configEmitted svc cs) = config_port (last cs)
   \<and> maxRetry (foldl configEmitted svc cs) = config_maxRetry (last cs)
   \<and> requestBackoff (foldl configEmitted svc cs) = config_requestBackoff (last cs)"
proof (induction cs arbitrary: svc)
  case Nil
  then show ?case by simp
next
  case (Cons c cs)
  show ?case
  proof (cases "cs = []")
    case True
    with Cons.prems show ?thesis by (simp add: configEmitted_fields)
  next
    case False
    from Cons.prems have "configSubscription (configEmitted svc c) \<noteq> None"
      by (simp add: configEmitted_subscription)
    from Cons.IH [OF this False] False show ?thesis by simp
  qed
qed

lemma setConfig_all:
  "foldl setConfig svc cs =
     (if cs = [] then svc
      else svc\<lparr>port := config_port (last cs), maxRetry := config_maxRetry (last cs),
               requestBackoff := config_requestBackoff (last cs)\<rparr>)"
proof (induction cs arbitrary: svc)
  case Nil
  show ?case by simp
next
  case (Cons c cs)
  show ?case by (simp add: Cons.IH) (simp add: setConfig_def)
qed

lemma emitted_all_subscribed:
  "configSubscription svc \<noteq> None \<Longrightarrow> foldl configEmitted svc cs = foldl setConfig svc cs"
proof (induction cs arbitrary: svc)
  case Nil
  show ?case by simp
next
  case (Cons c cs)
  from Cons.prems have step: "configEmitted svc c = setConfig svc c"
    by (auto simp: configEmitted_def)
  from Cons.prems have "configSubscription (setConfig svc c) \<noteq> None"
    by (simp add: setConfig_def)
  from Cons.IH [OF this] step show ?case by simp
qed

text \<open>
  C3, as the code has it: after a successful \<open>setup\<close>, the service after any sequence of
  emitted snapshots is the service that \<open>setup\<close> left with \<open>port\<close>, \<open>maxRetry\<close> and
  \<open>requestBackoff\<close> set to the values of the last snapshot, and nothing else changed: no
  credentials are reloaded, and the HTTPS agent and the HTTP client built over it stay
  those that \<open>setup\<close> made from the files at the paths of the first snapshot.
\<close>

theorem credentials_loaded_once:
  assumes "setupService env svc c0 = (Inr out, svc1)"
  shows "foldl configEmitted svc1 cs =
           svc1\<lparr>port := config_port (last (c0 # cs)),
                maxRetry := config_maxRetry (last (c0 # cs)),
                requestBackoff := config_requestBackoff (last (c0 # cs))\<rparr>
         \<and> httpsAgent (foldl configEmitted svc1 cs) = httpsAgent svc1
         \<and> wreck (foldl configEmitted svc1 cs) =
             WreckDefaults (httpsAgent svc1) (httpAgent svc1) (allowUnauthAgent svc1)
         \<and> (\<exists>tlsCert tlsKey tlsCa.
               readFile env (cert c0) = Inr tlsCert \<and> readFile env (key c0) = Inr tlsKey
               \<and> readFile env (ca c0) = Inr tlsCa
               \<and> httpsAgent svc1 = \<lparr>keepAlive = True, agent_cert = Some tlsCert,
                                      agent_key = Some tlsKey, agent_ca = Some tlsCa\<rparr>)"
proof -
  note ok = setupService_ok [OF assms]
  have sub: "configSubscription svc1 \<noteq> None" using ok(2) by simp
  have state: "foldl configEmitted svc1 cs =
           svc1\<lparr>port := config_port (last (c0 # cs)),
                maxRetry := config_maxRetry (last (c0 # cs)),
                requestBackoff := config_requestBackoff (last (c0 # cs))\<rparr>"
  proof (cases "cs = []")
    case True
    have "svc1\<lparr>port := port svc1, maxRetry := maxRetry svc1,
                requestBackoff := requestBackoff svc1\<rparr> = svc1"
      by simp
    with True ok(3) show ?thesis by simp
  next
    case False
    then show ?thesis
      by (simp add: emitted_all_subscribed [OF sub] setConfig_all)
  qed
  have client: "wreck svc1 = WreckDefaults (httpsAgent svc1) (httpAgent svc1) (allowUnauthAgent svc1)"
    using assms by (rule setupService_client)
  have agent: "httpsAgent (foldl configEmitted svc1 cs) = httpsAgent svc1"
    by (simp add: state)
  have kept: "wreck (foldl configEmitted svc1 cs) =
             WreckDefaults (httpsAgent svc1) (httpAgent svc1) (allowUnauthAgent svc1)"
    by (simp add: state client)
  from ok(1) have files: "\<exists>tlsCert tlsKey tlsCa.
               readFile env (cert c0) = Inr tlsCert \<and> readFile env (key c0) = Inr tlsKey
               \<and> readFile env (ca c0) = Inr tlsCa
               \<and> httpsAgent svc1 = \<lparr>keepAlive = True, agent_cert = Some tlsCert,
                                      agent_key = Some tlsKey, agent_ca = Some tlsCa\<rparr>"
    by blast
  from state agent kept files show ?thesis by (intro conjI)
qed

text \<open>
  C3 on the disk with two credential sets: after \<open>configB\<close> the service is the one that
  \<open>setup\<close> left, with the three fields of \<open>configB\<close>; agent and client still hold set A.
\<close>

theorem credentials_loaded_once_witness:
  "foldl configEmitted (snd (setupService disk (newProxyService ()) configA)) [configB] =
     \<lparr>configSubscription = Some Subscription, clusterDocClient = (),
      maxRetry = 5, requestBackoff = 100, port = 5602,
      httpsAgent = \<lparr>keepAlive = True, agent_cert = Some ''CERT A'',
                    agent_key = Some ''KEY A'', agent_ca = Some ''CA A''\<rparr>,
      httpAgent = plainAgent, allowUnauthAgent = plainAgent,
      wreck = WreckDefaults \<lparr>keepAlive = True, agent_cert = Some ''CERT A'',
                             agent_key = Some ''KEY A'', agent_ca = Some ''CA A''\<rparr>
                plainAgent plainAgent\<rparr>"
  using credentials_loaded_once [OF setup_A, of "[configB]", THEN conjunct1]
  by (simp add: setup_A configB_def)

text \<open>
  C3 as stated fails: \<open>setup\<close> with \<open>configA\<close>, then \<open>configB\<close> is emitted; the certificate
  at the path of \<open>configB\<close> is \<open>CERT B\<close>, and the agent's certificate is not.
\<close>

theorem credentials_reload_counterexample:
  "readFile disk (cert configB) = Inr ''CERT B''
   \<and> agent_cert (httpsAgent (configEmitted (snd (setupService disk (newProxyService ()) configA)) configB))
       \<noteq> Some ''CERT B''"
proof -
  have "readFile disk (cert configB) = Inr ''CERT B''"
    by (simp add: disk_def files_def configB_def)
  moreover have "agent_cert (httpsAgent (configEmitted (snd (setupService disk (newProxyService ()) configA)) configB))
                   = Some ''CERT A''"
    by (simp add: setup_A configEmitted_def setConfig_def)
  ultimately show ?thesis by simp
qed

subsection \<open>Shutdown\<close>

text \<open>
  C9, as the code has it: \<open>stop\<close> first stops the routing store client and then, if a
  subscription is open, unsubscribes and clears it; when stopping the client again gives
  the same client, a second \<open>stop\<close> only stops the client again and leaves the service
  as the first \<open>stop\<close> left it.
\<close>

theorem stop_client_first:
  assumes "client_stop env (clusterDocClient svc) = Inr c"
  shows "stop env svc =
           (Resolved Undefined,
            svc\<lparr>clusterDocClient := c, configSubscription := None\<rparr>,
            ClusterDocClientStop # (if configSubscription svc = None then [] else [Unsubscribe]))
         \<and> (client_stop env c = Inr c \<longrightarrow>
              stop env (fst (snd (stop env svc))) =
                (Resolved Undefined, fst (snd (stop env svc)), [ClusterDocClientStop]))"
  using assms
  by (cases svc) (auto simp: stop_def Let_def split: option.splits)

text \<open>C9 on the subscribed service of the scenario.\<close>

theorem stop_client_first_witness:
  "stop disk svc_2_50 =
     (Resolved Undefined,
      svc_2_50\<lparr>clusterDocClient := (), configSubscription := None\<rparr>,
      [ClusterDocClientStop, Unsubscribe])
   \<and> stop disk (fst (snd (stop disk svc_2_50))) =
       (Resolved Undefined, fst (snd (stop disk svc_2_50)), [ClusterDocClientStop])"
proof -
  have first: "client_stop disk (clusterDocClient svc_2_50) = Inr ()"
    by (simp add: disk_def)
  have again: "client_stop disk () = Inr ()"
    by (simp add: disk_def)
  have sub: "configSubscription svc_2_50 \<noteq> None"
    by (simp add: svc_2_50_def)
  note t = stop_client_first [OF first]
  from t [THEN conjunct1] sub have c1:
    "stop disk svc_2_50 =
       (Resolved Undefined,
        svc_2_50\<lparr>clusterDocClient := (), configSubscription := None\<rparr>,
        [ClusterDocClientStop, Unsubscribe])"
    by simp
  from t [THEN conjunct2] again have c2:
    "stop disk (fst (snd (stop disk svc_2_50))) =
       (Resolved Undefined, fst (snd (stop disk svc_2_50)), [ClusterDocClientStop])"
    by (rule mp)
  from c1 c2 show ?thesis by (rule conjI)
qed

text \<open>
  C9 as stated fails: on a subscribed service the routing store client is stopped before
  the subscription is closed, not after.
\<close>

theorem stop_order_counterexample:
  "snd (snd (stop disk svc_2_50)) = [ClusterDocClientStop, Unsubscribe]
   \<and> snd (snd (stop disk svc_2_50)) \<noteq> [Unsubscribe, ClusterDocClientStop]"
  by (simp add: stop_def disk_def svc_2_50_def newProxyService_def Let_def)

section \<open>Properties of the schema\<close>

lemma oneOf_tlsLabels:
  "validate (SOneOf [SLiteral ''TLSv1'', SLiteral ''TLSv1.1'', SLiteral ''TLSv1.2'']) v =
     (if v \<in> tlsLabels then Inr v else Inl ''types that failed validation'')"
  by (simp add: tlsLabels_def)

lemma allOK_tlsLabels:
  "allOK (map (validate (SOneOf [SLiteral ''TLSv1'', SLiteral ''TLSv1.1'', SLiteral ''TLSv1.2''])) xs) =
     (if set xs \<subseteq> tlsLabels then Inr xs else Inl ''types that failed validation'')"
proof (induction xs)
  case Nil
  then show ?case by simp
next
  case (Cons x xs)
  then show ?case by (simp only: list.map oneOf_tlsLabels) simp
qed

lemma supportedProtocols_array:
  "validate supportedProtocolsSchema (JArray xs) =
     (if xs = [] then Inl ''array size is smaller than the minimum''
      else if set xs \<subseteq> tlsLabels then Inr (JArray xs)
      else Inl ''types that failed validation'')"
  unfolding supportedProtocolsSchema_def
  by (simp only: validate.simps jsonv.case option.case allOK_tlsLabels)
     (cases xs; simp)

text \<open>
  C7: an omitted \<open>supportedProtocols\<close> takes the default \<open>[TLSv1.1, TLSv1.2]\<close>; a given
  value is accepted exactly when it is a non-empty array whose elements are all among the
  labels \<open>TLSv1\<close>, \<open>TLSv1.1\<close> and \<open>TLSv1.2\<close>, every other value is a validation error;
  an accepted array is returned as it is.
\<close>

theorem supportedProtocols_allow_list:
  "validate supportedProtocolsSchema JUndefined = Inr (JArray [JString ''TLSv1.1'', JString ''TLSv1.2''])
   \<and> (accepted (validate supportedProtocolsSchema v) \<longleftrightarrow>
        v = JUndefined \<or> (\<exists>xs. v = JArray xs \<and> xs \<noteq> [] \<and> set xs \<subseteq> tlsLabels))
   \<and> (validate supportedProtocolsSchema (JArray xs) = Inr w \<longrightarrow> w = JArray xs)"
proof (intro conjI)
  show "validate supportedProtocolsSchema JUndefined = Inr (JArray [JString ''TLSv1.1'', JString ''TLSv1.2''])"
    by (simp add: supportedProtocolsSchema_def)
  show "accepted (validate supportedProtocolsSchema v) \<longleftrightarrow>
          v = JUndefined \<or> (\<exists>xs. v = JArray xs \<and> xs \<noteq> [] \<and> set xs \<subseteq> tlsLabels)"
  proof (cases v)
    case (JArray xs)
    then show ?thesis by (simp add: supportedProtocols_array)
  qed (simp_all add: supportedProtocolsSchema_def)
  show "validate supportedProtocolsSchema (JArray xs) = Inr w \<longrightarrow> w = JArray xs"
    by (simp add: supportedProtocols_array split: if_splits)
qed

text \<open>C7 on four arrays: two labels, a label outside the list, the empty array, one label.\<close>

theorem supportedProtocols_allow_list_witness:
  "accepted (validate supportedProtocolsSchema (JArray [JString ''TLSv1'', JString ''TLSv1.2'']))
   \<and> \<not> accepted (validate supportedProtocolsSchema (JArray [JString ''TLSv1.2'', JString ''SSLv3'']))
   \<and> \<not> accepted (validate supportedProtocolsSchema (JArray []))
   \<and> validate supportedProtocolsSchema (JArray [JString ''TLSv1'']) = Inr (JArray [JString ''TLSv1''])"
proof -
  note t = supportedProtocols_allow_list
  have a: "accepted (validate supportedProtocolsSchema (JArray [JString ''TLSv1'', JString ''TLSv1.2'']))"
    using t [of "JArray [JString ''TLSv1'', JString ''TLSv1.2'']"] by (simp add: tlsLabels_def)
  have b: "\<not> accepted (validate supportedProtocolsSchema (JArray [JString ''TLSv1.2'', JString ''SSLv3'']))"
    using t [of "JArray [JString ''TLSv1.2'', JString ''SSLv3'']"] by (simp add: tlsLabels_def)
  have c: "\<not> accepted (validate supportedProtocolsSchema (JArray []))"
    using t [of "JArray []"] by simp
  have d: "validate supportedProtocolsSchema (JArray [JString ''TLSv1'']) = Inr (JArray [JString ''TLSv1''])"
  proof -
    from t [of "JArray [JString ''TLSv1'']"]
    have "accepted (validate supportedProtocolsSchema (JArray [JString ''TLSv1'']))"
      by (simp add: tlsLabels_def)
    then obtain w where w: "validate supportedProtocolsSchema (JArray [JString ''TLSv1'']) = Inr w"
      by (cases "validate supportedProtocolsSchema (JArray [JString ''TLSv1''])") simp_all
    with t [of _ "[JString ''TLSv1'']" w] show ?thesis by simp
  qed
  from a b c d show ?thesis by (intro conjI)
qed

lemma misspelt_constant_absent: "nodeCryptoConstants ''defulatCoreCipherList'' = None"
  by (simp add: nodeCryptoConstants_def)

lemma cipherSuites_default_if_present:
  "cryptoConstants ''defulatCoreCipherList'' = Some (JString x) \<Longrightarrow>
   cipherSuitesDefault cryptoConstants = Inr (JArray (map JString (split CHR '':'' x)))"
  by (simp add: cipherSuitesDefault_def)

text \<open>
  C8: on the constants of Node.js, whose cipher list is the property
  \<open>defaultCoreCipherList\<close>, the default of \<open>cipherSuites\<close> reads the property
  \<open>defulatCoreCipherList\<close>, which is undefined, and throws a \<open>TypeError\<close>; the schema is
  never built and no configuration, with or without \<open>cipherSuites\<close>, is validated.
\<close>

theorem cipherSuites_default_throws:
  "cipherSuitesDefault nodeCryptoConstants = Inl (TypeError ''Cannot read property split of undefined'')
   \<and> validateProxyConfig nodeCryptoConstants raw
       = Inl (TypeError ''Cannot read property split of undefined'')"
  by (simp add: validateProxyConfig_def ProxyConfig_def cipherSuitesDefault_def
                misspelt_constant_absent)

end
